theory Spec2Isabelle
  imports Main "HOL-Library.Sublist"
begin

section \<open>Python values and exceptions\<close>

text \<open>
  The development embeds \<^verbatim>\<open>snapchat_dl/snapchat_dl.py\<close> (class \<^verbatim>\<open>SnapchatDL\<close>) and
  \<^verbatim>\<open>snapchat_dl/downloader.py\<close> (function \<^verbatim>\<open>download_url\<close>).

  A Python \<^verbatim>\<open>str\<close> is a sequence of code points. Here a \<^typ>\<open>string\<close> is a list of
  \<^typ>\<open>char\<close>, and the character with number \<open>n\<close> stands for the code point U+00\<open>n\<close>:
  the model covers the strings over U+0000 .. U+00FF. A \<^verbatim>\<open>bytes\<close> value is a list of
  8-bit characters as well.

  Every \<^verbatim>\<open>raise\<close> of the source and of the library calls it makes is a value of
  \<open>exn\<close>; a function that can raise returns \<open>exn + 'a\<close> with \<open>Inl\<close> the exception.
  \<open>Unmodelled\<close> marks the few library behaviours the embedding does not compute
  (they are named where they occur); it is never the result of a \<^verbatim>\<open>raise\<close>.
\<close>

type_synonym bytes = "char list"

datatype exn =
    Exception string
  | AttributeError
  | TypeError
  | KeyError string
  | IndexError
  | ValueError
  | JSONDecodeError
  | HTTPError int
  | FileExistsError
  | FileNotFoundError
  | RequestException string
  | Unmodelled string

definition bind_exn :: "exn + 'a \<Rightarrow> ('a \<Rightarrow> exn + 'b) \<Rightarrow> exn + 'b" where
  "bind_exn r f = (case r of Inl e \<Rightarrow> Inl e | Inr v \<Rightarrow> f v)"

text \<open>Values as \<^verbatim>\<open>==\<close> sees them: an \<^verbatim>\<open>int\<close> never equals a \<^verbatim>\<open>str\<close>.\<close>

datatype pyval = PyInt int | PyStr string

fun py_eq :: "pyval \<Rightarrow> pyval \<Rightarrow> bool" where
  "py_eq (PyInt a) (PyInt b) = (a = b)"
| "py_eq (PyStr a) (PyStr b) = (a = b)"
| "py_eq (PyInt a) (PyStr b) = False"
| "py_eq (PyStr a) (PyInt b) = False"

section \<open>Usernames\<close>

text \<open>
  \<^verbatim>\<open>re.match(r"(?P<username>^[\w\.\_]+$)", username)\<close>: the pattern is a \<^verbatim>\<open>str\<close> pattern
  without flags, so \<^verbatim>\<open>\w\<close> is the Unicode class: \<^verbatim>\<open>c.isalnum() or c == '_'\<close>.
  Below U+0100 that is the ASCII letters and digits, the underscore, and the
  Latin-1 letters and numeric characters listed in \<open>latin1_alnum\<close>.
\<close>

definition ascii_alnum :: "char \<Rightarrow> bool" where
  "ascii_alnum c =
     (let n = (of_char c :: nat)
      in (48 \<le> n \<and> n \<le> 57) \<or> (65 \<le> n \<and> n \<le> 90) \<or> (97 \<le> n \<and> n \<le> 122))"

definition latin1_alnum :: "char \<Rightarrow> bool" where
  "latin1_alnum c =
     (let n = (of_char c :: nat)
      in n = 170 \<or> n = 178 \<or> n = 179 \<or> n = 181 \<or> n = 185 \<or> n = 186
         \<or> (188 \<le> n \<and> n \<le> 190)
         \<or> (192 \<le> n \<and> n \<le> 214) \<or> (216 \<le> n \<and> n \<le> 246) \<or> (248 \<le> n \<and> n \<le> 255))"

definition word_char :: "char \<Rightarrow> bool" where
  "word_char c = (ascii_alnum c \<or> latin1_alnum c \<or> c = CHR ''_'')"

text \<open>The character set \<^verbatim>\<open>[\w\.\_]\<close>.\<close>

definition username_char :: "char \<Rightarrow> bool" where
  "username_char c = (word_char c \<or> c = CHR ''.'' \<or> c = CHR ''_'')"

text \<open>
  The match object of \<^verbatim>\<open>re.match\<close>, as the text of its group \<^verbatim>\<open>username\<close>.
  \<^verbatim>\<open>^\<close> anchors at position 0, \<^verbatim>\<open>[...]+\<close> takes the longest run of set characters, and
  \<^verbatim>\<open>$\<close> matches at the end of the string or just before a newline that ends it.
  A shorter run never helps: the character after it is in the set, so it is
  neither the end nor a newline.
\<close>

definition re_match_username :: "string \<Rightarrow> string option" where
  "re_match_username s =
     (let grp = takeWhile username_char s; rest = dropWhile username_char s
      in if grp \<noteq> [] \<and> (rest = [] \<or> rest = [CHR 0x0A]) then Some grp else None)"

definition valid_username :: "string \<Rightarrow> bool" where
  "valid_username username =
     (case re_match_username username of
        None \<Rightarrow> False
      | Some grp \<Rightarrow> grp = username)"

text \<open>
  The specification's wording, for comparison: a full-string match of
  \<^verbatim>\<open>^[A-Za-z0-9_.]+$\<close>.
\<close>

definition spec_valid_username :: "string \<Rightarrow> bool" where
  "spec_valid_username s =
     (s \<noteq> [] \<and> list_all (\<lambda>c. ascii_alnum c \<or> c = CHR ''_'' \<or> c = CHR ''.'') s)"

section \<open>The JSON manifest\<close>

text \<open>
  What \<^verbatim>\<open>response.json()\<close> returns: \<^verbatim>\<open>None\<close>, a \<^verbatim>\<open>bool\<close>, an \<^verbatim>\<open>int\<close>, a \<^verbatim>\<open>str\<close>,
  a \<^verbatim>\<open>list\<close> or a \<^verbatim>\<open>dict\<close> with \<^verbatim>\<open>str\<close> keys. JSON numbers with a fraction or an
  exponent (Python \<^verbatim>\<open>float\<close>) are outside the model.
\<close>

datatype json =
    JNull
  | JBool bool
  | JNum int
  | JStr string
  | JArr "json list"
  | JObj "(string \<times> json) list"

text \<open>A \<^verbatim>\<open>dict\<close> built by the JSON decoder keeps the last value of a repeated key.\<close>

definition dict_lookup :: "(string \<times> json) list \<Rightarrow> string \<Rightarrow> json option" where
  "dict_lookup kvs k = map_of (rev kvs) k"

text \<open>\<^verbatim>\<open>x.get(k)\<close>: only a \<^verbatim>\<open>dict\<close> has the method.\<close>

fun py_get :: "json \<Rightarrow> string \<Rightarrow> exn + json" where
  "py_get (JObj kvs) k = Inr (case dict_lookup kvs k of None \<Rightarrow> JNull | Some v \<Rightarrow> v)"
| "py_get _ k = Inl AttributeError"

text \<open>\<^verbatim>\<open>x[k]\<close> for a \<^verbatim>\<open>str\<close> key \<open>k\<close>.\<close>

fun py_getitem :: "json \<Rightarrow> string \<Rightarrow> exn + json" where
  "py_getitem (JObj kvs) k = (case dict_lookup kvs k of None \<Rightarrow> Inl (KeyError k) | Some v \<Rightarrow> Inr v)"
| "py_getitem _ k = Inl TypeError"

subsection \<open>Decimal numbers\<close>

definition digit_char :: "nat \<Rightarrow> char" where
  "digit_char d = ''0123456789'' ! d"

fun show_nat :: "nat \<Rightarrow> string" where
  "show_nat n = (if n < 10 then [digit_char n] else show_nat (n div 10) @ [digit_char (n mod 10)])"

declare show_nat.simps [simp del]

definition show_int :: "int \<Rightarrow> string" where
  "show_int i = (if i < 0 then CHR ''-'' # show_nat (nat (- i)) else show_nat (nat i))"

definition is_digit :: "char \<Rightarrow> bool" where
  "is_digit c = (48 \<le> (of_char c :: nat) \<and> (of_char c :: nat) \<le> 57)"

text \<open>
  \<^verbatim>\<open>int(s)\<close> for a \<^verbatim>\<open>str\<close>: white space around the number is dropped, one sign is
  allowed, and single underscores may separate digits. Below U+0100 the white
  space \<^verbatim>\<open>int\<close> accepts is U+0009 .. U+000D, U+0020, U+0085 and U+00A0, and the
  only decimal digits are the ASCII ones.
\<close>

definition int_space :: "char \<Rightarrow> bool" where
  "int_space c =
     (let n = (of_char c :: nat) in (9 \<le> n \<and> n \<le> 13) \<or> n = 32 \<or> n = 133 \<or> n = 160)"

fun parse_digits :: "nat \<Rightarrow> string \<Rightarrow> nat option" where
  "parse_digits acc [] = Some acc"
| "parse_digits acc [c] =
     (if is_digit c then Some (10 * acc + (of_char c - 48)) else None)"
| "parse_digits acc (c # d # cs) =
     (if is_digit c then parse_digits (10 * acc + (of_char c - 48)) (d # cs)
      else if c = CHR ''_'' \<and> is_digit d then parse_digits acc (d # cs)
      else None)"

definition parse_nat :: "string \<Rightarrow> nat option" where
  "parse_nat s = (case s of [] \<Rightarrow> None | c # cs \<Rightarrow> if is_digit c then parse_digits 0 s else None)"

definition int_of_str :: "string \<Rightarrow> exn + int" where
  "int_of_str s =
     (let t = rev (dropWhile int_space (rev (dropWhile int_space s)))
      in case t of
           [] \<Rightarrow> Inl ValueError
         | c # cs \<Rightarrow>
             if c = CHR ''-'' then
               (case parse_nat cs of None \<Rightarrow> Inl ValueError | Some n \<Rightarrow> Inr (- int n))
             else if c = CHR ''+'' then
               (case parse_nat cs of None \<Rightarrow> Inl ValueError | Some n \<Rightarrow> Inr (int n))
             else
               (case parse_nat t of None \<Rightarrow> Inl ValueError | Some n \<Rightarrow> Inr (int n)))"

text \<open>\<^verbatim>\<open>int(x)\<close> for a decoded JSON value.\<close>

fun py_int :: "json \<Rightarrow> exn + int" where
  "py_int (JNum n) = Inr n"
| "py_int (JBool b) = Inr (if b then 1 else 0)"
| "py_int (JStr s) = int_of_str s"
| "py_int _ = Inl TypeError"

text \<open>
  \<^verbatim>\<open>str(x)\<close>, which \<^verbatim>\<open>str.format\<close> applies to an argument of a \<^verbatim>\<open>{}\<close> field.
  The text of a \<^verbatim>\<open>list\<close> or a \<^verbatim>\<open>dict\<close> (their \<^verbatim>\<open>repr\<close>) is not computed here.
\<close>

fun py_str :: "json \<Rightarrow> exn + string" where
  "py_str JNull = Inr ''None''"
| "py_str (JBool b) = Inr (if b then ''True'' else ''False'')"
| "py_str (JNum n) = Inr (show_int n)"
| "py_str (JStr s) = Inr s"
| "py_str _ = Inl (Unmodelled ''repr of a list or a dict'')"

text \<open>
  \<^verbatim>\<open>fmt.format(a, b, c)\<close> with automatically numbered \<^verbatim>\<open>{}\<close> fields and the escapes
  \<^verbatim>\<open>{{\<close> and \<^verbatim>\<open>}}\<close>. The arguments are already texts (\<^verbatim>\<open>str\<close> of each value).
  Fields with a name, an index, a conversion or a format specification are not
  computed here; unused arguments are ignored, as in Python.
\<close>

fun py_format :: "string \<Rightarrow> string list \<Rightarrow> exn + string" where
  "py_format [] args = Inr []"
| "py_format [c] args =
     (if c = CHR ''{'' \<or> c = CHR ''}'' then Inl ValueError else Inr [c])"
| "py_format (c # d # cs) args =
     (if c = CHR ''{'' \<and> d = CHR ''}'' then
        (case args of
           [] \<Rightarrow> Inl IndexError
         | a # as \<Rightarrow> bind_exn (py_format cs as) (\<lambda>r. Inr (a @ r)))
      else if c = CHR ''{'' \<and> d = CHR ''{'' then
        bind_exn (py_format cs args) (\<lambda>r. Inr (CHR ''{'' # r))
      else if c = CHR ''}'' \<and> d = CHR ''}'' then
        bind_exn (py_format cs args) (\<lambda>r. Inr (CHR ''}'' # r))
      else if c = CHR ''}'' then Inl ValueError
      else if c = CHR ''{'' then Inl (Unmodelled ''replacement field other than {}'')
      else bind_exn (py_format (d # cs) args) (\<lambda>r. Inr (c # r)))"

section \<open>Dates and times\<close>

text \<open>
  \<^verbatim>\<open>datetime.utcfromtimestamp(t)\<close> is the proleptic Gregorian date and the time of day
  of \<open>t\<close> seconds after 1970-01-01 00:00:00 UTC; it reads no time zone. The date
  follows the standard library's \<^verbatim>\<open>_ord2ymd\<close>, on the day number counted from
  0001-01-01 as day 1. Years outside 1 .. 9999 raise (\<^verbatim>\<open>ValueError\<close> next to the
  range; further away the platform raises \<^verbatim>\<open>OverflowError\<close> or \<^verbatim>\<open>OSError\<close>, which
  the model does not tell apart from it).
\<close>

record datetime =
  year :: int
  month :: int
  day :: int
  hour :: int
  minute :: int
  second :: int

definition days_before_month :: "int \<Rightarrow> int" where
  "days_before_month m =
     (if m = 1 then 0 else if m = 2 then 31 else if m = 3 then 59 else if m = 4 then 90
      else if m = 5 then 120 else if m = 6 then 151 else if m = 7 then 181
      else if m = 8 then 212 else if m = 9 then 243 else if m = 10 then 273
      else if m = 11 then 304 else 334)"

definition days_in_month :: "int \<Rightarrow> int" where
  "days_in_month m =
     (if m = 2 then 28 else if m = 4 \<or> m = 6 \<or> m = 9 \<or> m = 11 then 30 else 31)"

definition ord2ymd :: "int \<Rightarrow> int \<times> int \<times> int" where
  "ord2ymd ordinal =
     (let n = ordinal - 1;
          n400 = n div 146097; n = n mod 146097;
          n100 = n div 36524; n = n mod 36524;
          n4 = n div 1461; n = n mod 1461;
          n1 = n div 365; n = n mod 365;
          y = n400 * 400 + 1 + n100 * 100 + n4 * 4 + n1
      in if n1 = 4 \<or> n100 = 4 then (y - 1, 12, 31)
         else
           let leapyear = (n1 = 3 \<and> (n4 \<noteq> 24 \<or> n100 = 3));
               m = (n + 50) div 32;
               preceding = days_before_month m + (if m > 2 \<and> leapyear then 1 else 0)
           in if preceding > n then
                (y, m - 1,
                 n - (preceding - (days_in_month (m - 1) + (if m - 1 = 2 \<and> leapyear then 1 else 0))) + 1)
              else (y, m, n - preceding + 1))"

definition utcfromtimestamp :: "int \<Rightarrow> exn + datetime" where
  "utcfromtimestamp t =
     (if t < - 62135596800 \<or> 253402300799 < t then Inl ValueError
      else
        let (y, m, d) = ord2ymd (t div 86400 + 719163); s = t mod 86400
        in Inr \<lparr>year = y, month = m, day = d,
                hour = s div 3600, minute = (s mod 3600) div 60, second = s mod 60\<rparr>)"

text \<open>
  The local-time constructor \<^verbatim>\<open>datetime.fromtimestamp\<close>, which the source does not
  call: it shifts by the machine's offset from UTC (\<open>tz\<close>, in seconds east).
\<close>

definition fromtimestamp :: "int \<Rightarrow> int \<Rightarrow> exn + datetime" where
  "fromtimestamp tz t = utcfromtimestamp (t + tz)"

definition pad2 :: "int \<Rightarrow> string" where
  "pad2 n = (if n < 10 then CHR ''0'' # show_int n else show_int n)"

text \<open>
  The directives of \<^verbatim>\<open>strftime\<close> that the source uses, and \<^verbatim>\<open>%%\<close>. \<^verbatim>\<open>%Y\<close> is the year
  in decimal, as the C library prints it (four digits from the year 1000 on).
\<close>

definition directive :: "datetime \<Rightarrow> char \<Rightarrow> string option" where
  "directive dt c =
     (if c = CHR ''Y'' then Some (show_int (year dt))
      else if c = CHR ''m'' then Some (pad2 (month dt))
      else if c = CHR ''d'' then Some (pad2 (day dt))
      else if c = CHR ''H'' then Some (pad2 (hour dt))
      else if c = CHR ''M'' then Some (pad2 (minute dt))
      else if c = CHR ''S'' then Some (pad2 (second dt))
      else if c = CHR ''%'' then Some ''%''
      else None)"

fun strftime :: "datetime \<Rightarrow> string \<Rightarrow> exn + string" where
  "strftime dt [] = Inr []"
| "strftime dt [c] =
     (if c = CHR ''%'' then Inl (Unmodelled ''strftime directive'') else Inr [c])"
| "strftime dt (c # d # cs) =
     (if c = CHR ''%'' then
        (case directive dt d of
           None \<Rightarrow> Inl (Unmodelled ''strftime directive'')
         | Some s \<Rightarrow> bind_exn (strftime dt cs) (\<lambda>r. Inr (s @ r)))
      else bind_exn (strftime dt (d # cs)) (\<lambda>r. Inr (c # r)))"

section \<open>Paths\<close>

text \<open>\<^verbatim>\<open>os.path.join\<close> and \<^verbatim>\<open>os.path.dirname\<close> of \<^verbatim>\<open>posixpath\<close>.\<close>

definition join2 :: "string \<Rightarrow> string \<Rightarrow> string" where
  "join2 path b =
     (if b \<noteq> [] \<and> hd b = CHR ''/'' then b
      else if path = [] \<or> last path = CHR ''/'' then path @ b
      else path @ ''/'' @ b)"

definition path_join :: "string \<Rightarrow> string list \<Rightarrow> string" where
  "path_join a p = foldl join2 a p"

definition dirname :: "string \<Rightarrow> string" where
  "dirname p =
     (let head = rev (dropWhile (\<lambda>c. c \<noteq> CHR ''/'') (rev p))
      in if head \<noteq> [] \<and> \<not> list_all (\<lambda>c. c = CHR ''/'') head
         then rev (dropWhile (\<lambda>c. c = CHR ''/'') (rev head))
         else head)"

section \<open>The class \<^verbatim>\<open>SnapchatDL\<close>: naming a download\<close>

record SnapchatDL =
  directory_prefix :: string
  max_workers :: int
  limit_story :: int
  no_progress :: bool

text \<open>
  \<^verbatim>\<open>self.endpoint\<close>: the assignment ends at the end of its line; the string literal
  on the next line is a statement of its own and is not part of the value.
\<close>

definition endpoint :: string where
  "endpoint = ''https://storysharing.snapchat.com/v1/fetch/{}''"

definition reaponse_ok :: int where
  "reaponse_ok = 200"

text \<open>
  \<^verbatim>\<open>media_type\<close> returns \<^verbatim>\<open>None\<close> when no \<^verbatim>\<open>if\<close> applies: the function ends without a
  \<^verbatim>\<open>return\<close>.
\<close>

definition media_type :: "json \<Rightarrow> string option" where
  "media_type t =
     (if t = JStr ''IMAGE'' then Some ''.jpg''
      else if t = JStr ''VIDEO'' then Some ''.mp4''
      else if t = JStr ''VIDEO_NO_SOUND'' then Some ''.mp4''
      else None)"

text \<open>
  \<open>tz\<close> is the machine's local offset from UTC. It is a parameter of everything
  that formats a time, to make the machine's setting explicit.
\<close>

definition strf_time :: "int \<Rightarrow> int \<Rightarrow> string \<Rightarrow> exn + string" where
  "strf_time tz timestamp format_str =
     bind_exn (utcfromtimestamp timestamp) (\<lambda>dt. strftime dt format_str)"

text \<open>\<^verbatim>\<open>str(file_ext)\<close>: the text of \<^verbatim>\<open>None\<close> is \<^verbatim>\<open>None\<close>.\<close>

definition str_opt :: "string option \<Rightarrow> string" where
  "str_opt x = (case x of None \<Rightarrow> ''None'' | Some s \<Rightarrow> s)"

text \<open>
  The body of the loop in \<^verbatim>\<open>download\<close> up to \<^verbatim>\<open>executor.submit\<close>: the URL and the
  destination of one snap, or the exception that one of its steps raises.
\<close>

definition media_task :: "int \<Rightarrow> SnapchatDL \<Rightarrow> string \<Rightarrow> json \<Rightarrow> exn + (json \<times> string)" where
  "media_task tz self username media =
     bind_exn (py_getitem media ''media'') (\<lambda>m.
     bind_exn (py_getitem m ''mediaUrl'') (\<lambda>media_url.
     bind_exn (py_getitem media ''captureTimeSecs'') (\<lambda>cts.
     bind_exn (py_int cts) (\<lambda>timestamp.
     bind_exn (strf_time tz timestamp ''%Y-%m-%d'') (\<lambda>date_str.
     bind_exn (py_getitem m ''type'') (\<lambda>ty.
       let file_ext = media_type ty;
           dir_name = path_join (directory_prefix self) [username, date_str]
       in
     bind_exn (strf_time tz timestamp ''%Y-%m-%d_%H-%M-%S {} {}{}'') (\<lambda>fmt.
     bind_exn (py_get media ''id'') (\<lambda>snap_id.
     bind_exn (py_str snap_id) (\<lambda>id_str.
     bind_exn (py_format fmt [id_str, username, str_opt file_ext]) (\<lambda>filename.
       Inr (media_url, path_join dir_name [filename])))))))))))"

section \<open>The machine: file system, network, observable events\<close>

text \<open>
  The file system is the regular files with their contents and the set of
  directories; \<open>trace\<close> records, in order, what a call did to the outside.
  Failures of the disk itself (no space, no permission) are not modelled, and
  \<^verbatim>\<open>os.makedirs\<close> is recorded for the directory it is asked for, not for each
  of its ancestors.
\<close>

datatype event =
    Makedirs string
  | Remove string
  | Sleep int
  | Get string
  | OpenExcl string
  | Write string bytes
  | Close string
  | LogError string
  | Print string
  | Progressbar int string string
  | Submit json string

record world =
  files :: "string \<rightharpoonup> bytes"
  dirs :: "string set"
  trace :: "event list"

definition log :: "event \<Rightarrow> world \<Rightarrow> world" where
  "log e w = w\<lparr>trace := trace w @ [e]\<rparr>"

text \<open>
  A \<^verbatim>\<open>requests\<close> response: the status, the text of the \<^verbatim>\<open>Content-length\<close> header
  when the server sent one (\<^verbatim>\<open>response.headers\<close> holds texts, and its lookup
  ignores case), the chunks that \<^verbatim>\<open>iter_content\<close> yields, the
  \<^verbatim>\<open>RequestException\<close> it raises after them when the transfer breaks, and the value
  of \<^verbatim>\<open>response.json()\<close> when the body is JSON.
\<close>

record response =
  status_code :: int
  content_length :: "string option"
  chunks :: "bytes list"
  transfer_error :: "string option"
  json_body :: "json option"

datatype http_result = ConnectionFailed string | Response response

type_synonym network = "string \<Rightarrow> http_result"

definition then_do ::
  "(exn + 'a) \<times> world \<Rightarrow> ('a \<Rightarrow> world \<Rightarrow> (exn + 'b) \<times> world) \<Rightarrow> (exn + 'b) \<times> world" where
  "then_do r f = (case r of (Inl e, w) \<Rightarrow> (Inl e, w) | (Inr v, w) \<Rightarrow> f v w)"

text \<open>\<^verbatim>\<open>os.makedirs(d, exist_ok=True)\<close>\<close>

definition os_makedirs :: "string \<Rightarrow> world \<Rightarrow> (exn + unit) \<times> world" where
  "os_makedirs d w =
     (if d = [] then (Inl FileNotFoundError, w)
      else if files w d \<noteq> None then (Inl FileExistsError, w)
      else (Inr (), log (Makedirs d) (w\<lparr>dirs := insert d (dirs w)\<rparr>)))"

definition isfile :: "world \<Rightarrow> string \<Rightarrow> bool" where
  "isfile w p = (files w p \<noteq> None)"

text \<open>\<^verbatim>\<open>os.path.getsize\<close>; the source calls it on regular files only.\<close>

definition getsize :: "world \<Rightarrow> string \<Rightarrow> exn + int" where
  "getsize w p = (case files w p of None \<Rightarrow> Inl FileNotFoundError | Some d \<Rightarrow> Inr (int (length d)))"

definition os_remove :: "string \<Rightarrow> world \<Rightarrow> (exn + unit) \<times> world" where
  "os_remove p w =
     (if files w p = None then (Inl FileNotFoundError, w)
      else (Inr (), log (Remove p) (w\<lparr>files := (files w)(p := None)\<rparr>)))"

text \<open>\<^verbatim>\<open>time.sleep\<close> refuses a negative length.\<close>

definition time_sleep :: "int \<Rightarrow> world \<Rightarrow> (exn + unit) \<times> world" where
  "time_sleep secs w =
     (if secs < 0 then (Inl ValueError, w) else (Inr (), log (Sleep secs) w))"

definition requests_get :: "network \<Rightarrow> string \<Rightarrow> world \<Rightarrow> (exn + response) \<times> world" where
  "requests_get net url w =
     (case net url of
        ConnectionFailed e \<Rightarrow> (Inl (RequestException e), log (Get url) w)
      | Response r \<Rightarrow> (Inr r, log (Get url) w))"

text \<open>
  \<^verbatim>\<open>raise response.raise_for_status()\<close>: for a status 400 .. 599 the call itself
  raises \<^verbatim>\<open>HTTPError\<close>; for any other status it returns \<^verbatim>\<open>None\<close>, and \<^verbatim>\<open>raise None\<close>
  is a \<^verbatim>\<open>TypeError\<close>.
\<close>

definition raise_for_status :: "response \<Rightarrow> exn" where
  "raise_for_status r =
     (if 400 \<le> status_code r \<and> status_code r < 600 then HTTPError (status_code r) else TypeError)"

text \<open>\<^verbatim>\<open>open(dest, "xb")\<close>: exclusive creation.\<close>

definition open_excl :: "string \<Rightarrow> world \<Rightarrow> (exn + unit) \<times> world" where
  "open_excl p w =
     (if files w p \<noteq> None \<or> p \<in> dirs w then (Inl FileExistsError, w)
      else if dirname p \<noteq> [] \<and> dirname p \<notin> dirs w then (Inl FileNotFoundError, w)
      else (Inr (), log (OpenExcl p) (w\<lparr>files := (files w)(p \<mapsto> [])\<rparr>)))"

text \<open>
  \<^verbatim>\<open>handle.write(data)\<close> appends to the file the handle was opened on; when the
  path has been removed meanwhile, the data does not show under the path.
\<close>

definition handle_write :: "string \<Rightarrow> bytes \<Rightarrow> world \<Rightarrow> world" where
  "handle_write p data w =
     log (Write p data)
       (case files w p of
          None \<Rightarrow> w
        | Some old \<Rightarrow> w\<lparr>files := (files w)(p \<mapsto> old @ data)\<rparr>)"

fun write_all :: "string \<Rightarrow> bytes list \<Rightarrow> world \<Rightarrow> world" where
  "write_all p [] w = w"
| "write_all p (data # rest) w = write_all p rest (handle_write p data w)"

section \<open>\<^verbatim>\<open>downloader.download_url\<close>\<close>

text \<open>
  The size test compares the \<^verbatim>\<open>int\<close> of \<^verbatim>\<open>os.path.getsize\<close> with the text of the
  header. The body of the \<^verbatim>\<open>with\<close> statement streams the chunks; a
  \<^verbatim>\<open>RequestException\<close> is caught and logged, and leaving the \<^verbatim>\<open>with\<close> closes the
  handle.
\<close>

definition download_url ::
  "network \<Rightarrow> string \<Rightarrow> string \<Rightarrow> int \<Rightarrow> world \<Rightarrow> (exn + unit) \<times> world" where
  "download_url net url dest sleep_interval w0 =
     then_do (if length (dirname dest) > 0 then os_makedirs (dirname dest) w0 else (Inr (), w0))
       (\<lambda>_ w1.
     then_do (if isfile w1 dest \<and> getsize w1 dest = Inr 0 then os_remove dest w1 else (Inr (), w1))
       (\<lambda>_ w2.
     then_do (time_sleep sleep_interval w2)
       (\<lambda>_ w3.
     then_do (requests_get net url w3)
       (\<lambda>response w4.
     if status_code response \<noteq> 200 then (Inl (raise_for_status response), w4)
     else
     then_do
       (if isfile w4 dest then
          (case getsize w4 dest of
             Inl e \<Rightarrow> (Inl e, w4)
           | Inr n \<Rightarrow>
               (case content_length response of
                  None \<Rightarrow> (Inl (KeyError ''content-length''), w4)
                | Some h \<Rightarrow>
                    if py_eq (PyInt n) (PyStr h) then (Inl FileExistsError, w4)
                    else (Inr (), w4)))
        else (Inr (), w4))
       (\<lambda>_ w5.
     then_do (open_excl dest w5)
       (\<lambda>_ w6.
          let w7 = write_all dest (chunks response) w6
          in case transfer_error response of
               None \<Rightarrow> (Inr (), log (Close dest) w7)
             | Some e \<Rightarrow> (Inr (), log (Close dest) (log (LogError e) w7))))))))"

section \<open>\<^verbatim>\<open>SnapchatDL.download_url\<close>\<close>

text \<open>
  The method that \<^verbatim>\<open>SnapchatDL.download\<close> submits to its pool. It creates the
  destination before the request, does not sleep, and on a \<^verbatim>\<open>RequestException\<close>
  prints the error in red and removes the destination. Whatever ends the
  \<^verbatim>\<open>with\<close> statement, the handle is closed.
\<close>

definition fore_red :: string where
  "fore_red = [CHR 0x1B] @ ''[31m''"

definition SnapchatDL_download_url ::
  "network \<Rightarrow> string \<Rightarrow> string \<Rightarrow> world \<Rightarrow> (exn + unit) \<times> world" where
  "SnapchatDL_download_url net url dest w0 =
     then_do (os_makedirs (dirname dest) w0)
       (\<lambda>_ w1.
     then_do (if isfile w1 dest \<and> getsize w1 dest = Inr 0 then os_remove dest w1 else (Inr (), w1))
       (\<lambda>_ w2.
     then_do (open_excl dest w2)
       (\<lambda>_ w3.
          case
            then_do (requests_get net url w3)
              (\<lambda>response w4.
            if status_code response \<noteq> reaponse_ok then (Inl (raise_for_status response), w4)
            else
            then_do
              (case getsize w4 dest of
                 Inl e \<Rightarrow> (Inl e, w4)
               | Inr n \<Rightarrow>
                   (case content_length response of
                      None \<Rightarrow> (Inl (KeyError ''content-length''), w4)
                    | Some h \<Rightarrow>
                        if py_eq (PyInt n) (PyStr h) then (Inl FileExistsError, w4)
                        else (Inr (), w4)))
              (\<lambda>_ w5.
                 let w6 = write_all dest (chunks response) w5
                 in case transfer_error response of
                      None \<Rightarrow> (Inr (), w6)
                    | Some e \<Rightarrow> os_remove dest (log (Print (fore_red @ e)) w6)))
          of (r, w) \<Rightarrow> (r, log (Close dest) w))))"

section \<open>\<^verbatim>\<open>SnapchatDL.get_stories\<close> and \<^verbatim>\<open>SnapchatDL.download\<close>\<close>

text \<open>
  \<^verbatim>\<open>get_stories\<close> returns \<^verbatim>\<open>{"stories_available": False}\<close>, here \<open>None\<close>, or
  \<^verbatim>\<open>{"stories_available": True, "data": data}\<close>, here \<open>Some data\<close>. Only the status
  decides which. The events are the requests it made.
\<close>

definition get_stories :: "network \<Rightarrow> string \<Rightarrow> (exn + json option) \<times> event list" where
  "get_stories net username =
     (case py_format endpoint [username] of
        Inl e \<Rightarrow> (Inl e, [])
      | Inr api_url \<Rightarrow>
          (case net api_url of
             ConnectionFailed e \<Rightarrow> (Inl (RequestException e), [Get api_url])
           | Response r \<Rightarrow>
               if status_code r \<noteq> 200 then (Inr None, [Get api_url])
               else (case json_body r of
                       None \<Rightarrow> (Inl JSONDecodeError, [Get api_url])
                     | Some data \<Rightarrow> (Inr (Some data), [Get api_url]))))"

text \<open>
  \<^verbatim>\<open>stories[0 : n]\<close> for \<open>n \<ge> 0\<close>, \<^verbatim>\<open>len(stories)\<close> and the items of
  \<^verbatim>\<open>for media in stories\<close>, on whatever value the manifest holds under
  \<^verbatim>\<open>story.snaps\<close>. Slicing a \<^verbatim>\<open>dict\<close> raises (\<^verbatim>\<open>TypeError\<close> up to Python 3.11,
  \<^verbatim>\<open>KeyError\<close> from 3.12 on; the model has the former).
\<close>

fun py_slice :: "json \<Rightarrow> int \<Rightarrow> exn + json" where
  "py_slice (JArr xs) n = Inr (JArr (take (nat n) xs))"
| "py_slice (JStr s) n = Inr (JStr (take (nat n) s))"
| "py_slice _ n = Inl TypeError"

definition dict_keys :: "(string \<times> json) list \<Rightarrow> string list" where
  "dict_keys kvs = rev (remdups (rev (map fst kvs)))"

fun py_len :: "json \<Rightarrow> exn + int" where
  "py_len (JArr xs) = Inr (int (length xs))"
| "py_len (JStr s) = Inr (int (length s))"
| "py_len (JObj kvs) = Inr (int (length (dict_keys kvs)))"
| "py_len _ = Inl TypeError"

fun py_iter :: "json \<Rightarrow> exn + json list" where
  "py_iter (JArr xs) = Inr xs"
| "py_iter (JStr s) = Inr (map (\<lambda>c. JStr [c]) s)"
| "py_iter (JObj kvs) = Inr (map JStr (dict_keys kvs))"
| "py_iter _ = Inl TypeError"

text \<open>Lines 152 to 156: the stories kept, and the text for the progress bar.\<close>

definition limit_stories :: "SnapchatDL \<Rightarrow> json \<Rightarrow> exn + (json \<times> string)" where
  "limit_stories self stories =
     (if limit_story self > - 1 then
        bind_exn (py_slice stories (limit_story self)) (\<lambda>stories'.
        bind_exn (py_len stories') (\<lambda>n.
          Inr (stories', '' of '' @ show_int n)))
      else Inr (stories, []))"

text \<open>
  The loop over the stories. Each round names the download and submits it; an
  exception ends the loop after the submissions made so far.
\<close>

fun submit_all :: "int \<Rightarrow> SnapchatDL \<Rightarrow> string \<Rightarrow> json list \<Rightarrow> (exn + unit) \<times> event list" where
  "submit_all tz self username [] = (Inr (), [])"
| "submit_all tz self username (media # rest) =
     (case media_task tz self username media of
        Inl e \<Rightarrow> (Inl e, [])
      | Inr (media_url, output) \<Rightarrow>
          (case submit_all tz self username rest of
             (r, evs) \<Rightarrow> (r, Submit media_url output # evs)))"

definition no_stories_message :: "string \<Rightarrow> string" where
  "no_stories_message username =
     [CHR 0x1B] @ ''[91m[-] '' @ username @ '' has no stories'' @ [CHR 0x1B] @ ''[0m''"

text \<open>
  \<^verbatim>\<open>download\<close>: the value returned or the exception raised, and the events in
  order: requests, prints, the progress bar, and the submissions to the pool.
  What the pool's threads do with a submitted download is \<open>SnapchatDL_download_url\<close>;
  an exception there stays in the future and does not reach \<^verbatim>\<open>download\<close>.
\<close>

definition download :: "int \<Rightarrow> SnapchatDL \<Rightarrow> network \<Rightarrow> string \<Rightarrow> (exn + bool) \<times> event list" where
  "download tz self net username =
     (if valid_username username = False then (Inl (Exception ''invalid username''), [])
      else
        case get_stories net username of
          (Inl e, evs) \<Rightarrow> (Inl e, evs)
        | (Inr None, evs) \<Rightarrow> (Inr False, evs @ [Print (no_stories_message username)])
        | (Inr (Some data), evs) \<Rightarrow>
            (case bind_exn (py_get data ''story'') (\<lambda>story. py_get story ''snaps'') of
               Inl e \<Rightarrow> (Inl e, evs)
             | Inr stories \<Rightarrow>
                 (case limit_stories self stories of
                    Inl e \<Rightarrow> (Inl e, evs)
                  | Inr (stories', limited_info) \<Rightarrow>
                      (case py_len stories' of
                         Inl e \<Rightarrow> (Inl e, evs)
                       | Inr n_total \<Rightarrow>
                           let evs' = evs @ (if no_progress self = False
                                              then [Progressbar n_total username limited_info]
                                              else [])
                           in case py_iter stories' of
                                Inl e \<Rightarrow> (Inl e, evs')
                              | Inr items \<Rightarrow>
                                  (case submit_all tz self username items of
                                     (Inl e, subs) \<Rightarrow> (Inl e, evs' @ subs)
                                   | (Inr _, subs) \<Rightarrow> (Inr True, evs' @ subs))))))"


section \<open>What a date and time in UTC denote\<close>








section \<open>Reading a trace\<close>

text \<open>
  \<open>paced d\<close> holds of a trace when every request in it comes directly after a
  pause of length \<open>d\<close>. The flag of \<open>paced_from\<close> tells whether the event before
  was such a pause.
\<close>

fun paced_from :: "int \<Rightarrow> bool \<Rightarrow> event list \<Rightarrow> bool" where
  "paced_from d ready [] = True"
| "paced_from d ready (Get u # es) = (ready \<and> paced_from d False es)"
| "paced_from d ready (Sleep n # es) = paced_from d (n = d) es"
| "paced_from d ready (e # es) = paced_from d False es"

definition paced :: "int \<Rightarrow> event list \<Rightarrow> bool" where
  "paced d es = paced_from d False es"

section \<open>Concrete machines, responses and manifests\<close>

text \<open>A server that answers every request with the same response.\<close>

definition serve :: "response \<Rightarrow> network" where
  "serve r url = Response r"

definition fresh_world :: world where
  "fresh_world = \<lparr>files = Map.empty, dirs = {}, trace = []\<rparr>"

text \<open>A file system that holds one file, in its directory.\<close>

definition world_with :: "string \<Rightarrow> bytes \<Rightarrow> world" where
  "world_with p data = \<lparr>files = [p \<mapsto> data], dirs = {dirname p}, trace = []\<rparr>"

definition ok_response :: response where
  "ok_response =
     \<lparr>status_code = 200, content_length = Some ''3'', chunks = [''ab'', ''c''],
      transfer_error = None, json_body = None\<rparr>"

text \<open>The same transfer, broken after the first chunk.\<close>

definition broken_response :: response where
  "broken_response =
     \<lparr>status_code = 200, content_length = Some ''3'', chunks = [''ab''],
      transfer_error = Some ''Connection broken'', json_body = None\<rparr>"

definition empty_response :: response where
  "empty_response =
     \<lparr>status_code = 200, content_length = Some ''0'', chunks = [],
      transfer_error = None, json_body = None\<rparr>"

definition manifest_response :: "json \<Rightarrow> response" where
  "manifest_response data =
     \<lparr>status_code = 200, content_length = None, chunks = [],
      transfer_error = None, json_body = Some data\<rparr>"

definition snap :: "string \<Rightarrow> string \<Rightarrow> int \<Rightarrow> json" where
  "snap snap_id ty secs =
     JObj [(''id'', JStr snap_id), (''captureTimeSecs'', JNum secs),
           (''media'', JObj [(''mediaUrl'', JStr (''https://cdn/'' @ snap_id)), (''type'', JStr ty)])]"

definition three_snaps :: "json list" where
  "three_snaps = [snap ''a'' ''IMAGE'' 0, snap ''b'' ''VIDEO'' 86400, snap ''c'' ''VIDEO_NO_SOUND'' 90061]"

definition manifest_of :: "json list \<Rightarrow> json" where
  "manifest_of snaps = JObj [(''story'', JObj [(''snaps'', JArr snaps)])]"

definition downloader :: "int \<Rightarrow> SnapchatDL" where
  "downloader n = \<lparr>directory_prefix = ''.'', max_workers = 2, limit_story = n, no_progress = False\<rparr>"

section \<open>Texts without braces\<close>


section \<open>Basic facts\<close>

lemma bind_exn_Inl_iff:
  "bind_exn r f = Inl e \<longleftrightarrow> r = Inl e \<or> (\<exists>v. r = Inr v \<and> f v = Inl e)"
  by (cases r) (simp_all add: bind_exn_def)


lemma py_format_no_Exception: "py_format f args \<noteq> Inl (Exception m)"
  by (induction f args rule: py_format.induct)
     (auto simp: bind_exn_Inl_iff split: list.splits)

lemma strftime_no_Exception: "strftime dt f \<noteq> Inl (Exception m)"
  by (induction dt f rule: strftime.induct)
     (auto simp: bind_exn_Inl_iff split: option.splits)

lemma py_getitem_no_Exception: "py_getitem x k \<noteq> Inl (Exception m)"
  by (cases x) (auto split: option.splits)

lemma py_get_no_Exception: "py_get x k \<noteq> Inl (Exception m)"
  by (cases x) auto

lemma int_of_str_no_Exception: "int_of_str s \<noteq> Inl (Exception m)"
  by (auto simp: int_of_str_def Let_def split: list.splits option.splits)

lemma py_int_no_Exception: "py_int x \<noteq> Inl (Exception m)"
  by (cases x) (auto simp: int_of_str_no_Exception)

lemma py_str_no_Exception: "py_str x \<noteq> Inl (Exception m)"
  by (cases x) auto

lemma strf_time_no_Exception: "strf_time tz t f \<noteq> Inl (Exception m)"
  by (auto simp: strf_time_def utcfromtimestamp_def bind_exn_Inl_iff strftime_no_Exception Let_def
      split: prod.splits if_splits)

lemma media_task_no_Exception: "media_task tz self username media \<noteq> Inl (Exception m)"
  by (auto simp: media_task_def bind_exn_Inl_iff Let_def py_getitem_no_Exception
      py_get_no_Exception py_int_no_Exception py_str_no_Exception strf_time_no_Exception
      py_format_no_Exception)

lemma submit_all_no_Exception: "submit_all tz self username items \<noteq> (Inl (Exception m), evs)"
  by (induction items arbitrary: evs) (auto simp: media_task_no_Exception split: sum.splits prod.splits)

lemma get_stories_no_Exception: "fst (get_stories net username) \<noteq> Inl (Exception m)"
  by (auto simp: get_stories_def py_format_no_Exception split: sum.splits http_result.splits option.splits)

lemma py_slice_no_Exception: "py_slice x n \<noteq> Inl (Exception m)"
  by (cases x) auto

lemma py_len_no_Exception: "py_len x \<noteq> Inl (Exception m)"
  by (cases x) auto

lemma py_iter_no_Exception: "py_iter x \<noteq> Inl (Exception m)"
  by (cases x) auto

lemma limit_stories_no_Exception: "limit_stories self x \<noteq> Inl (Exception m)"
  by (auto simp: limit_stories_def bind_exn_Inl_iff py_slice_no_Exception py_len_no_Exception)

lemma download_valid_no_Exception:
  assumes "valid_username username"
  shows "fst (download tz self net username) \<noteq> Inl (Exception m)"
proof -
  obtain g evs where g: "get_stories net username = (g, evs)"
    by (cases "get_stories net username")
  have g': "g \<noteq> Inl (Exception m)"
    using get_stories_no_Exception [of net username m] g by simp
  show ?thesis
    using assms g g'
    by (auto simp: download_def Let_def bind_exn_Inl_iff py_get_no_Exception
        limit_stories_no_Exception py_len_no_Exception py_iter_no_Exception
        submit_all_no_Exception
        split: sum.splits option.splits prod.splits)
qed

lemma valid_username_list_all:
  "valid_username s \<longleftrightarrow> s \<noteq> [] \<and> list_all username_char s"
proof (cases "list_all username_char s")
  case True
  then have tw: "takeWhile username_char s = s" and dw: "dropWhile username_char s = []"
    by (simp_all add: list_all_iff)
  show ?thesis
    unfolding valid_username_def re_match_username_def Let_def tw dw using True by auto
next
  case False
  then have "takeWhile username_char s \<noteq> s"
    by (simp add: list_all_iff)
  then show ?thesis using False
    by (auto simp: valid_username_def re_match_username_def Let_def)
qed

lemma username_char_ascii:
  "of_char c < (128::nat) \<Longrightarrow> username_char c \<longleftrightarrow> ascii_alnum c \<or> c = CHR ''_'' \<or> c = CHR ''.''"
  by (auto simp: username_char_def word_char_def latin1_alnum_def Let_def)

section \<open>Usernames: validity and the invalid-username error\<close>

text \<open>
  Claim C3, as the code has it. \<^verbatim>\<open>valid_username(s)\<close> is true exactly when \<open>s\<close> is not
  empty and each of its characters is in \<^verbatim>\<open>[\w\.\_]\<close>, where \<^verbatim>\<open>\w\<close> is the Unicode
  word class. On strings of ASCII characters this is a full match of
  \<^verbatim>\<open>^[A-Za-z0-9_.]+$\<close>. \<^verbatim>\<open>download(s)\<close> raises the invalid-username exception exactly
  when \<^verbatim>\<open>valid_username(s)\<close> is false.
\<close>

theorem valid_username_iff:
  "(valid_username s \<longleftrightarrow> s \<noteq> [] \<and> list_all username_char s)
   \<and> (list_all (\<lambda>c. of_char c < (128::nat)) s \<longrightarrow> (valid_username s \<longleftrightarrow> spec_valid_username s))
   \<and> (fst (download tz self net s) = Inl (Exception ''invalid username'') \<longleftrightarrow> \<not> valid_username s)"
proof (intro conjI impI)
  show "valid_username s \<longleftrightarrow> s \<noteq> [] \<and> list_all username_char s"
    by (rule valid_username_list_all)
next
  assume "list_all (\<lambda>c. of_char c < (128::nat)) s"
  then have "list_all username_char s \<longleftrightarrow> list_all (\<lambda>c. ascii_alnum c \<or> c = CHR ''_'' \<or> c = CHR ''.'') s"
    by (induction s) (simp_all add: username_char_ascii)
  then show "valid_username s \<longleftrightarrow> spec_valid_username s"
    by (simp add: valid_username_list_all spec_valid_username_def)
next
  show "fst (download tz self net s) = Inl (Exception ''invalid username'') \<longleftrightarrow> \<not> valid_username s"
    using download_valid_no_Exception [of s tz self net "''invalid username''"]
    by (auto simp: download_def)
qed

theorem valid_username_iff_witness:
  "list_all (\<lambda>c. of_char c < (128::nat)) ''user.name_1'' \<and> valid_username ''user.name_1''
   \<and> spec_valid_username ''user.name_1''
   \<and> \<not> valid_username ''user name''
   \<and> fst (download 0 \<lparr>directory_prefix = ''.'', max_workers = 2, limit_story = - 1, no_progress = False\<rparr>
        (\<lambda>u. ConnectionFailed ''down'') ''user name'') = Inl (Exception ''invalid username'')"
proof -
  let ?dl = "\<lparr>directory_prefix = ''.'', max_workers = 2, limit_story = - 1, no_progress = False\<rparr>"
  let ?net = "\<lambda>u::string. ConnectionFailed ''down''"
  have a: "list_all (\<lambda>c. of_char c < (128::nat)) ''user.name_1''"
    by simp
  have b: "list_all username_char ''user.name_1''"
    by (simp add: username_char_def word_char_def ascii_alnum_def latin1_alnum_def)
  have c: "\<not> list_all username_char ''user name''"
    by (simp add: username_char_def word_char_def ascii_alnum_def latin1_alnum_def)
  from valid_username_iff [of "''user.name_1''" 0 ?dl ?net] a b
  have "valid_username ''user.name_1''" "spec_valid_username ''user.name_1''"
    by blast+
  moreover from valid_username_iff [of "''user name''" 0 ?dl ?net] c
  have "\<not> valid_username ''user name''"
    "fst (download 0 ?dl ?net ''user name'') = Inl (Exception ''invalid username'')"
    by blast+
  ultimately show ?thesis using a by simp
qed

text \<open>
  The claim with the ASCII set for every string fails: \<^verbatim>\<open>valid_username\<close> accepts
  the one-character string U+00E9 (e with an acute accent).
\<close>

theorem valid_username_counterexample:
  "valid_username [CHR 0xE9] \<and> \<not> spec_valid_username [CHR 0xE9]"
  by (simp add: valid_username_def re_match_username_def username_char_def word_char_def
      ascii_alnum_def latin1_alnum_def spec_valid_username_def)



section \<open>Evaluating the definitions\<close>

lemmas machine_defs =
  download_url_def SnapchatDL_download_url_def then_do_def os_makedirs_def isfile_def getsize_def
  os_remove_def time_sleep_def requests_get_def open_excl_def handle_write_def log_def
  raise_for_status_def reaponse_ok_def dirname_def fore_red_def
  serve_def fresh_world_def world_with_def ok_response_def broken_response_def empty_response_def

lemmas naming_defs =
  media_task_def bind_exn_def dict_lookup_def strf_time_def utcfromtimestamp_def ord2ymd_def
  days_before_month_def days_in_month_def directive_def pad2_def show_int_def show_nat.simps
  digit_char_def media_type_def path_join_def join2_def str_opt_def snap_def downloader_def Let_def

lemmas username_defs =
  valid_username_def re_match_username_def username_char_def word_char_def ascii_alnum_def
  latin1_alnum_def

lemmas manifest_defs =
  get_stories_def endpoint_def serve_def manifest_response_def manifest_of_def three_snaps_def

section \<open>The submissions of \<^verbatim>\<open>download\<close> and the story limit\<close>









section \<open>One download: what the two \<^verbatim>\<open>download_url\<close> do\<close>

lemma write_all_files:
  "files w p = Some old \<Longrightarrow> files (write_all p cs w) = (files w)(p \<mapsto> old @ concat cs)"
  by (induction cs arbitrary: w old) (auto simp: handle_write_def log_def)


lemma write_all_trace: "trace (write_all p cs w) = trace w @ map (Write p) cs"
  by (induction cs arbitrary: w) (auto simp: handle_write_def log_def split: option.splits)

lemma py_eq_int_str: "\<not> py_eq (PyInt n) (PyStr h)"
  by simp



lemma download_url_existing:
  assumes "files w dest = Some data" and "data \<noteq> []"
    and "files w (dirname dest) = None"
    and "0 \<le> sleep_interval" and "net url = Response resp" and "status_code resp = 200"
    and "content_length resp = Some h"
  shows "fst (download_url net url dest sleep_interval w) = Inl FileExistsError"
    and "files (snd (download_url net url dest sleep_interval w)) = files w"
    and "trace (snd (download_url net url dest sleep_interval w)) =
           trace w @ (if dirname dest = [] then [] else [Makedirs (dirname dest)])
             @ [Sleep sleep_interval, Get url]"
  using assms
  by (auto simp: download_url_def then_do_def os_makedirs_def isfile_def getsize_def os_remove_def
      time_sleep_def requests_get_def open_excl_def log_def Let_def
      split: option.splits)

lemma SnapchatDL_download_url_existing:
  assumes "files w dest = Some data" and "data \<noteq> []"
    and "files w (dirname dest) = None" and "dirname dest \<noteq> []"
  shows "fst (SnapchatDL_download_url net url dest w) = Inl FileExistsError"
    and "files (snd (SnapchatDL_download_url net url dest w)) = files w"
    and "trace (snd (SnapchatDL_download_url net url dest w)) = trace w @ [Makedirs (dirname dest)]"
  using assms
  by (auto simp: SnapchatDL_download_url_def then_do_def os_makedirs_def isfile_def getsize_def
      os_remove_def open_excl_def log_def Let_def
      split: option.splits)

text \<open>
  Claim C1, as the code has it. When the destination exists as a file of
  non-zero size, equal to the \<^verbatim>\<open>Content-length\<close> of a 200 response,
  \<^verbatim>\<open>downloader.download_url\<close> raises \<^verbatim>\<open>FileExistsError\<close> after the request and
  leaves every file as it was; it makes the directory, sleeps and sends the
  request, and nothing else. \<^verbatim>\<open>SnapchatDL.download_url\<close>, for a destination inside
  a directory, raises \<^verbatim>\<open>FileExistsError\<close> before any request and leaves every file
  as it was.
\<close>

theorem download_url_existing_file:
  assumes "files w dest = Some data" and "data \<noteq> []"
    and "net url = Response resp" and "status_code resp = 200"
    and "content_length resp = Some (show_int (int (length data)))"
    and "0 \<le> sleep_interval"
    and "files w (dirname dest) = None"
  shows "fst (download_url net url dest sleep_interval w) = Inl FileExistsError
         \<and> files (snd (download_url net url dest sleep_interval w)) = files w
         \<and> trace (snd (download_url net url dest sleep_interval w)) =
             trace w @ (if dirname dest = [] then [] else [Makedirs (dirname dest)])
               @ [Sleep sleep_interval, Get url]
         \<and> (dirname dest \<noteq> [] \<longrightarrow>
              fst (SnapchatDL_download_url net url dest w) = Inl FileExistsError
              \<and> files (snd (SnapchatDL_download_url net url dest w)) = files w
              \<and> trace (snd (SnapchatDL_download_url net url dest w)) = trace w @ [Makedirs (dirname dest)])"
  using download_url_existing [where net = net and url = url, OF assms(1,2,7,6,3,4,5)]
    SnapchatDL_download_url_existing [OF assms(1,2,7), of net url]
  by simp

theorem download_url_existing_file_witness:
  "fst (download_url (serve ok_response) ''https://cdn/a'' ''d/a.jpg'' 1 (world_with ''d/a.jpg'' ''abc''))
     = Inl FileExistsError
   \<and> files (snd (download_url (serve ok_response) ''https://cdn/a'' ''d/a.jpg'' 1
        (world_with ''d/a.jpg'' ''abc''))) ''d/a.jpg'' = Some ''abc''
   \<and> fst (SnapchatDL_download_url (serve ok_response) ''https://cdn/a'' ''d/a.jpg''
        (world_with ''d/a.jpg'' ''abc'')) = Inl FileExistsError
   \<and> files (snd (SnapchatDL_download_url (serve ok_response) ''https://cdn/a'' ''d/a.jpg''
        (world_with ''d/a.jpg'' ''abc''))) ''d/a.jpg'' = Some ''abc''"
proof -
  let ?w = "world_with ''d/a.jpg'' ''abc''"
  have d: "dirname ''d/a.jpg'' = ''d''"
    by (simp add: dirname_def)
  have 1: "files ?w ''d/a.jpg'' = Some ''abc''" and 2: "''abc'' \<noteq> ([] :: bytes)"
    and 3: "serve ok_response ''https://cdn/a'' = Response ok_response"
    and 4: "status_code ok_response = 200"
    and 5: "content_length ok_response = Some (show_int (int (length ''abc'')))"
    and 6: "(0::int) \<le> 1"
    and 7: "files ?w (dirname ''d/a.jpg'') = None"
    by (simp_all add: d world_with_def serve_def ok_response_def show_int_def show_nat.simps digit_char_def)
  from download_url_existing_file
    [where net = "serve ok_response" and url = "''https://cdn/a''", OF 1 2 3 4 5 6 7] d 1
  show ?thesis by simp
qed

text \<open>
  For a destination of size 0 and a declared length of 0 the claim fails: the
  file is removed, the body is downloaded and written to a new file, and the
  call returns normally.
\<close>

theorem download_url_existing_file_counterexample:
  "files (world_with ''d/a.jpg'' []) ''d/a.jpg'' = Some []
   \<and> content_length empty_response = Some (show_int (int (length ([] :: bytes))))
   \<and> status_code empty_response = 200
   \<and> fst (download_url (serve empty_response) ''https://cdn/a'' ''d/a.jpg'' 1 (world_with ''d/a.jpg'' []))
       = Inr ()
   \<and> trace (snd (download_url (serve empty_response) ''https://cdn/a'' ''d/a.jpg'' 1
        (world_with ''d/a.jpg'' [])))
       = [Makedirs ''d'', Remove ''d/a.jpg'', Sleep 1, Get ''https://cdn/a'', OpenExcl ''d/a.jpg'',
          Close ''d/a.jpg'']"
  by (simp add: machine_defs show_int_def show_nat.simps digit_char_def)








subsection \<open>The pause before the request\<close>

text \<open>
  \<^verbatim>\<open>downloader.download_url\<close> sends its request directly after a pause of
  \<^verbatim>\<open>sleep_interval\<close>, whatever the inputs. \<^verbatim>\<open>SnapchatDL.download_url\<close> never
  pauses.
\<close>

lemma paced_from_Write:
  "paced_from d False (map (Write p) cs @ es) = paced_from d False es"
  by (induction cs) simp_all

lemma download_url_paced:
  "trace w = [] \<Longrightarrow> paced sleep_interval (trace (snd (download_url net url dest sleep_interval w)))"
  by (auto simp: download_url_def then_do_def os_makedirs_def isfile_def getsize_def os_remove_def
      time_sleep_def requests_get_def open_excl_def log_def Let_def write_all_trace paced_from_Write
      paced_def
      split: option.splits http_result.splits sum.splits)

lemma SnapchatDL_download_url_never_sleeps:
  "Sleep n \<in> set (trace (snd (SnapchatDL_download_url net url dest w))) \<Longrightarrow> Sleep n \<in> set (trace w)"
  by (auto simp: SnapchatDL_download_url_def then_do_def os_makedirs_def isfile_def getsize_def
      os_remove_def requests_get_def open_excl_def log_def Let_def write_all_trace write_all_files
      split: option.splits http_result.splits sum.splits if_splits)

text \<open>
  Claim C5 says that every request for a media item comes after a pause. The
  method that \<^verbatim>\<open>SnapchatDL.download\<close> submits does not pause: on a fresh machine
  and a complete transfer it makes the directory, creates the file, sends the
  request and writes the chunks.
\<close>

theorem SnapchatDL_download_url_no_sleep:
  "SnapchatDL_download_url (serve ok_response) ''https://cdn/a'' ''d/a.jpg'' fresh_world
     = (Inr (), \<lparr>files = [''d/a.jpg'' \<mapsto> ''abc''], dirs = {''d''},
                 trace = [Makedirs ''d'', OpenExcl ''d/a.jpg'', Get ''https://cdn/a'',
                          Write ''d/a.jpg'' ''ab'', Write ''d/a.jpg'' ''c'', Close ''d/a.jpg'']\<rparr>)
   \<and> \<not> paced 1 (trace (snd (SnapchatDL_download_url (serve ok_response) ''https://cdn/a'' ''d/a.jpg'' fresh_world)))"
  by (simp add: machine_defs paced_def)

section \<open>The manifest request\<close>

text \<open>A status other than 200: \<^verbatim>\<open>download\<close> prints the message and returns \<^verbatim>\<open>False\<close>.\<close>

lemma download_not_ok:
  assumes "valid_username username"
    and "net (''https://storysharing.snapchat.com/v1/fetch/'' @ username) = Response resp"
    and "status_code resp \<noteq> 200"
  shows "download tz self net username
     = (Inr False, [Get (''https://storysharing.snapchat.com/v1/fetch/'' @ username),
                    Print (no_stories_message username)])"
proof -
  have "py_format endpoint [username] = Inr (''https://storysharing.snapchat.com/v1/fetch/'' @ username)"
    by (simp add: endpoint_def bind_exn_def)
  then show ?thesis using assms
    by (simp add: download_def get_stories_def)
qed

text \<open>
  Claim C2 says that a 200 response without \<^verbatim>\<open>story.snaps\<close> gives no stories and
  no exception. In the code, a body \<^verbatim>\<open>{}\<close> makes \<^verbatim>\<open>data.get("story")\<close> be \<^verbatim>\<open>None\<close>, and
  \<^verbatim>\<open>download\<close> raises \<^verbatim>\<open>AttributeError\<close>; a body \<^verbatim>\<open>{"story": {}}\<close> makes the stories be
  \<^verbatim>\<open>None\<close>, and \<^verbatim>\<open>download\<close> raises \<^verbatim>\<open>TypeError\<close>.
\<close>

theorem download_missing_story:
  "download 0 (downloader (- 1)) (serve (manifest_response (JObj []))) ''user''
     = (Inl AttributeError, [Get ''https://storysharing.snapchat.com/v1/fetch/user''])
   \<and> download 0 (downloader (- 1)) (serve (manifest_response (JObj [(''story'', JObj [])]))) ''user''
     = (Inl TypeError, [Get ''https://storysharing.snapchat.com/v1/fetch/user''])"
  by (simp add: download_def username_defs manifest_defs downloader_def bind_exn_def dict_lookup_def
      limit_stories_def)

section \<open>The calendar\<close>






section \<open>The destination path\<close>













lemma media_type_cases:
  "media_type (JStr ''IMAGE'') = Some ''.jpg''"
  "media_type (JStr ''VIDEO'') = Some ''.mp4''"
  "media_type (JStr ''VIDEO_NO_SOUND'') = Some ''.mp4''"
  "t \<noteq> JStr ''IMAGE'' \<Longrightarrow> t \<noteq> JStr ''VIDEO'' \<Longrightarrow> t \<noteq> JStr ''VIDEO_NO_SOUND'' \<Longrightarrow> media_type t = None"
  by (simp_all add: media_type_def)





text \<open>
  Claim C7 says that a media type other than the three known ones appends
  nothing to the file name. In the code \<^verbatim>\<open>media_type\<close> returns \<^verbatim>\<open>None\<close> for such a
  type and \<^verbatim>\<open>str.format\<close> writes it out: the file name ends with the username
  followed by the text \<^verbatim>\<open>None\<close>.
\<close>

theorem media_task_unknown_type:
  "media_task 0 (downloader (- 1)) ''user'' (snap ''a'' ''AUDIO'' 0)
     = Inr (JStr ''https://cdn/a'', ''./user/1970-01-01/1970-01-01_00-00-00 a userNone'')"
  by (simp add: naming_defs)



end
